theory Spec2Isabelle
  imports Main
begin

section \<open>Configuration\<close>

text \<open>
  \<^verbatim>\<open>settings.config.settings\<close> is imported by the source but its module is not part of it.
  It is taken as a parameter: a record of the four options the source reads
  (\<^verbatim>\<open>settings.jwt_secret_key\<close>, \<^verbatim>\<open>settings.jwt_algorithm\<close>,
  \<^verbatim>\<open>settings.access_token_expire_minutes\<close> in \<^verbatim>\<open>jwt_service.py\<close>, and
  \<^verbatim>\<open>settings.max_login_attempts\<close> in \<^verbatim>\<open>conftest.py\<close>).
\<close>

type_synonym instant = int
  \<comment> \<open>a point in time, in whole seconds since the epoch\<close>

type_synonym timedelta = int
  \<comment> \<open>a duration, in whole seconds (may be negative or zero)\<close>

record settings =
  jwt_secret_key :: string
  jwt_algorithm :: string
  access_token_expire_minutes :: int
  max_login_attempts :: int

section \<open>The account record (\<^verbatim>\<open>app/models/user_model.py\<close>)\<close>

datatype UserRole = ANONYMOUS | AUTHENTICATED | MANAGER | ADMIN

text \<open>The member name of a role (\<^verbatim>\<open>role.name\<close>), which is also its value.\<close>

fun name_of_role :: "UserRole \<Rightarrow> string" where
  "name_of_role ANONYMOUS = ''ANONYMOUS''"
| "name_of_role AUTHENTICATED = ''AUTHENTICATED''"
| "name_of_role MANAGER = ''MANAGER''"
| "name_of_role ADMIN = ''ADMIN''"

text \<open>
  The columns of \<^verbatim>\<open>User\<close> that carry authentication state. The free-text profile columns
  (\<^verbatim>\<open>first_name\<close>, \<^verbatim>\<open>last_name\<close>, \<^verbatim>\<open>bio\<close>, the three URLs), the primary key and the
  two server-side timestamps are left out: no method of the class reads or writes them.
\<close>

record user =
  nickname :: string
  email :: string
  role :: UserRole
  is_professional :: bool
  professional_status_updated_at :: "instant option"
  last_login_at :: "instant option"
  failed_login_attempts :: int
  is_locked :: bool
  verification_token :: "string option"
  email_verified :: bool
  hashed_password :: string

definition lock_account :: "user \<Rightarrow> user" where
  "lock_account self = self\<lparr>is_locked := True\<rparr>"

definition unlock_account :: "user \<Rightarrow> user" where
  "unlock_account self = self\<lparr>is_locked := False\<rparr>"

definition verify_email :: "user \<Rightarrow> user" where
  "verify_email self = self\<lparr>email_verified := True\<rparr>"

definition has_role :: "user \<Rightarrow> UserRole \<Rightarrow> bool" where
  "has_role self role_name = (role self = role_name)"

text \<open>\<^verbatim>\<open>func.now()\<close> is the database clock; its reading is the parameter \<open>now\<close>.\<close>

definition update_professional_status :: "user \<Rightarrow> bool \<Rightarrow> instant \<Rightarrow> user" where
  "update_professional_status self status now =
     self\<lparr>is_professional := status, professional_status_updated_at := Some now\<rparr>"

subsection \<open>The test fixtures (\<^verbatim>\<open>tests/conftest.py\<close>)\<close>

text \<open>
  \<^verbatim>\<open>user\<close> and \<^verbatim>\<open>locked_user\<close> of \<^verbatim>\<open>conftest.py\<close>. The generated names and the password
  digest are fixed strings here; the columns the fixtures do not set take the defaults
  declared by the model (\<^verbatim>\<open>failed_login_attempts = 0\<close>, \<^verbatim>\<open>is_professional = False\<close>,
  nullable columns empty).
\<close>

definition user_fixture :: user where
  "user_fixture =
     \<lparr>nickname = ''jdoe'', email = ''jdoe@example.com'', role = AUTHENTICATED,
      is_professional = False, professional_status_updated_at = None,
      last_login_at = None, failed_login_attempts = 0, is_locked = False,
      verification_token = None, email_verified = False,
      hashed_password = ''digest''\<rparr>"

definition locked_user :: "settings \<Rightarrow> user" where
  "locked_user st =
     \<lparr>nickname = ''jdoe'', email = ''jdoe@example.com'', role = AUTHENTICATED,
      is_professional = False, professional_status_updated_at = None,
      last_login_at = None, failed_login_attempts = max_login_attempts st,
      is_locked = True, verification_token = None, email_verified = False,
      hashed_password = ''digest''\<rparr>"

definition test_settings :: settings where
  "test_settings =
     \<lparr>jwt_secret_key = ''secret'', jwt_algorithm = ''HS256'',
      access_token_expire_minutes = 15, max_login_attempts = 5\<rparr>"

subsection \<open>The invariant of the account record\<close>

text \<open>
  The invariant the specification asks of the account record: a locked account has its
  counter at or above the threshold.
\<close>

definition lockout_inv :: "int \<Rightarrow> user \<Rightarrow> bool" where
  "lockout_inv M u = (is_locked u \<longrightarrow> M \<le> failed_login_attempts u)"

subsection \<open>The role order of the specification\<close>

text \<open>
  Written from the specification's words, to be compared with \<^const>\<open>has_role\<close>:
  satisfaction is role equality or a higher position in the fixed order
  baseline < authenticated < manager < admin.
\<close>

fun spec_rank :: "UserRole \<Rightarrow> nat" where
  "spec_rank ANONYMOUS = 0"
| "spec_rank AUTHENTICATED = 1"
| "spec_rank MANAGER = 2"
| "spec_rank ADMIN = 3"

definition spec_satisfies :: "UserRole \<Rightarrow> UserRole \<Rightarrow> bool" where
  "spec_satisfies a b = (a = b \<or> spec_rank b < spec_rank a)"

section \<open>The lockout policy\<close>

text \<open>
  The login path of the repository (the service that counts failed attempts and calls
  \<^const>\<open>lock_account\<close>) is not among the source files; only the record it mutates and the
  fixtures that use it are.
\<close>

datatype auth_error = AccountLocked | InvalidCredentials

datatype login_outcome = Success | LockedFailure | CredentialFailure

text \<open>
  Modelled from the spec: the transition \<^verbatim>\<open>record_failure\<close> of the lockout policy, absent
  from the source. It is valid only from Open, increments \<^verbatim>\<open>failed_login_attempts\<close> by 1
  and, if the new count reaches the configured maximum, locks the account in the same
  step (through the source's \<^const>\<open>lock_account\<close>).
\<close>

definition record_failure :: "settings \<Rightarrow> user \<Rightarrow> auth_error + user" where
  "record_failure st account =
     (if is_locked account then Inl AccountLocked
      else
        let counted = account\<lparr>failed_login_attempts := failed_login_attempts account + 1\<rparr>
        in Inr (if max_login_attempts st \<le> failed_login_attempts counted
                then lock_account counted else counted))"

text \<open>
  Modelled from the spec: the transition \<^verbatim>\<open>record_success\<close>, absent from the source. It
  is valid only from Open, resets \<^verbatim>\<open>failed_login_attempts\<close> to 0 and updates the
  last-login timestamp.
\<close>

definition record_success :: "user \<Rightarrow> instant \<Rightarrow> auth_error + user" where
  "record_success account now =
     (if is_locked account then Inl AccountLocked
      else Inr (account\<lparr>failed_login_attempts := 0, last_login_at := Some now\<rparr>))"

text \<open>
  Modelled from the spec: \<^verbatim>\<open>attempt_login(account, plaintext)\<close>, absent from the source.
  A locked account is rejected first; otherwise the credential collaborator
  \<^verbatim>\<open>verify(plaintext, digest)\<close> (a parameter) decides between \<^const>\<open>record_success\<close> and
  \<^const>\<open>record_failure\<close>. The third component of the result lists the calls made to the
  collaborator, in order.
\<close>

definition attempt_login ::
  "settings \<Rightarrow> (string \<Rightarrow> string \<Rightarrow> bool) \<Rightarrow> instant \<Rightarrow> user \<Rightarrow> string
     \<Rightarrow> login_outcome \<times> user \<times> (string \<times> string) list" where
  "attempt_login st verify now account plaintext =
     (if is_locked account then (LockedFailure, account, [])
      else
        let calls = [(plaintext, hashed_password account)]
        in if verify plaintext (hashed_password account)
           then (case record_success account now of
                   Inr a \<Rightarrow> (Success, a, calls)
                 | Inl e \<Rightarrow> (LockedFailure, account, calls))
           else (case record_failure st account of
                   Inr a \<Rightarrow> (CredentialFailure, a, calls)
                 | Inl e \<Rightarrow> (LockedFailure, account, calls)))"



subsection \<open>The operations on an account\<close>

text \<open>
  The operations that change an account record: the two transitions of the policy and
  the four mutating methods of \<^verbatim>\<open>User\<close>. A rejected transition leaves the record as it
  was.
\<close>

datatype account_op =
  RecordFailure
| RecordSuccess instant
| LockAccount
| UnlockAccount
| VerifyEmail
| UpdateProfessionalStatus bool instant

fun apply_op :: "settings \<Rightarrow> user \<Rightarrow> account_op \<Rightarrow> user" where
  "apply_op st u RecordFailure = (case record_failure st u of Inr v \<Rightarrow> v | Inl e \<Rightarrow> u)"
| "apply_op st u (RecordSuccess now) = (case record_success u now of Inr v \<Rightarrow> v | Inl e \<Rightarrow> u)"
| "apply_op st u LockAccount = lock_account u"
| "apply_op st u UnlockAccount = unlock_account u"
| "apply_op st u VerifyEmail = verify_email u"
| "apply_op st u (UpdateProfessionalStatus status now) = update_professional_status u status now"

fun run_ops :: "settings \<Rightarrow> user \<Rightarrow> account_op list \<Rightarrow> user" where
  "run_ops st u [] = u"
| "run_ops st u (x # xs) = run_ops st (apply_op st u x) xs"

text \<open>
  Whether every direct \<^const>\<open>lock_account\<close> of a run is applied to an account whose
  counter is at or above the threshold.
\<close>

fun locks_at_threshold :: "settings \<Rightarrow> user \<Rightarrow> account_op list \<Rightarrow> bool" where
  "locks_at_threshold st u [] = True"
| "locks_at_threshold st u (x # xs) =
     ((x \<noteq> LockAccount \<or> max_login_attempts st \<le> failed_login_attempts u)
      \<and> locks_at_threshold st (apply_op st u x) xs)"

section \<open>The token service (\<^verbatim>\<open>app/services/jwt_service.py\<close>)\<close>

subsection \<open>Python values, dictionaries and the heap\<close>

datatype pyval = VStr string | VInt int | VDatetime instant

type_synonym pydict = "(string \<times> pyval) list"
  \<comment> \<open>a \<^verbatim>\<open>dict\<close> with string keys, in insertion order, keys distinct\<close>

fun dict_set :: "pydict \<Rightarrow> string \<Rightarrow> pyval \<Rightarrow> pydict" where
  "dict_set [] k v = [(k, v)]"
| "dict_set ((k', v') # d) k v =
     (if k' = k then (k, v) # d else (k', v') # dict_set d k v)"

text \<open>
  Dictionaries are objects: the caller and the callee hold references (addresses) to
  them. \<open>next_addr\<close> is the first address not yet in use.
\<close>

record heap =
  cells :: "nat \<Rightarrow> pydict"
  next_addr :: nat

definition dict_copy :: "heap \<Rightarrow> nat \<Rightarrow> nat \<times> heap" where
  "dict_copy h a =
     (next_addr h,
      h\<lparr>cells := (cells h)(next_addr h := cells h a), next_addr := Suc (next_addr h)\<rparr>)"

definition dict_store :: "heap \<Rightarrow> nat \<Rightarrow> string \<Rightarrow> pyval \<Rightarrow> heap" where
  "dict_store h a k v = h\<lparr>cells := (cells h)(a := dict_set (cells h a) k v)\<rparr>"

text \<open>A heap holding one dictionary, at address 0.\<close>

definition heap_with :: "pydict \<Rightarrow> heap" where
  "heap_with d = \<lparr>cells = (\<lambda>a. [])(0 := d), next_addr = 1\<rparr>"

text \<open>\<^verbatim>\<open>str.upper\<close>, on ASCII text: the letters a to z are raised, every other character is kept.\<close>

definition upper_char :: "char \<Rightarrow> char" where
  "upper_char c =
     (let n = (of_char c :: nat) in if 97 \<le> n \<and> n \<le> 122 then char_of (n - 32) else c)"

definition upper :: "string \<Rightarrow> string" where
  "upper s = map upper_char s"

text \<open>
  \<^verbatim>\<open>expires_delta or timedelta(...)\<close>: Python's \<^verbatim>\<open>or\<close> takes its right operand when the left
  one is falsy, and both \<^verbatim>\<open>None\<close> and \<^verbatim>\<open>timedelta(0)\<close> are falsy.
\<close>

definition timedelta_or :: "timedelta option \<Rightarrow> timedelta \<Rightarrow> timedelta" where
  "timedelta_or x y = (case x of None \<Rightarrow> y | Some d \<Rightarrow> if d = 0 then y else d)"

definition minutes :: "int \<Rightarrow> timedelta" where
  "minutes m = 60 * m"

subsection \<open>The signing library\<close>

datatype jwt_error =
  DecodeError | InvalidAlgorithmError | InvalidSignatureError | ExpiredSignatureError

datatype exn = AttributeError | TypeError | PyJWTError jwt_error

text \<open>
  Modelled from the spec: the token encoding of the external library \<^verbatim>\<open>jwt\<close>, which is
  not part of the source. A token string is read as what it decodes to: either it is not
  a three-part structure (\<open>Garbage\<close>), or it carries an algorithm name, a claims
  dictionary and a signature (\<open>Jws\<close>). Signatures are symbolic: \<open>Mac key alg claims\<close>
  is the signature of these claims under this key and algorithm, and equals no other
  signature; \<open>Junk\<close> is any other third part.
\<close>

datatype signature = Mac string string pydict | Junk string

datatype token = Garbage string | Jws string pydict signature

text \<open>
  Modelled from the spec: \<^verbatim>\<open>jwt.encode\<close>, which produces the signed, tamper-evident
  encoding of the claims with \<^verbatim>\<open>exp\<close> as a numeric instant. The registered time claims
  given as \<^verbatim>\<open>datetime\<close> become numbers; a \<^verbatim>\<open>datetime\<close> left anywhere else cannot be
  serialised.
\<close>

definition numeric_dates :: "pydict \<Rightarrow> pydict" where
  "numeric_dates d =
     map (\<lambda>(k, v). case v of
            VDatetime t \<Rightarrow> if k \<in> set [''exp'', ''iat'', ''nbf''] then (k, VInt t) else (k, v)
          | _ \<Rightarrow> (k, v)) d"

definition serialisable :: "pydict \<Rightarrow> bool" where
  "serialisable d = list_all (\<lambda>(k, v). case v of VDatetime t \<Rightarrow> False | _ \<Rightarrow> True) d"

definition jwt_encode :: "pydict \<Rightarrow> string \<Rightarrow> string \<Rightarrow> exn + token" where
  "jwt_encode payload key alg =
     (let p = numeric_dates payload
      in if serialisable p then Inr (Jws alg p (Mac key alg p)) else Inl TypeError)"

text \<open>
  Modelled from the spec: \<^verbatim>\<open>jwt.decode\<close>, which checks the encoding, the signature and
  that \<open>now < exp\<close>, and raises one of the library's own errors otherwise. \<open>now\<close> is the
  clock reading at the call.
\<close>

definition jwt_decode :: "token \<Rightarrow> string \<Rightarrow> string list \<Rightarrow> instant \<Rightarrow> exn + pydict" where
  "jwt_decode tok key algorithms now =
     (case tok of
        Garbage g \<Rightarrow> Inl (PyJWTError DecodeError)
      | Jws alg payload sg \<Rightarrow>
          if alg \<notin> set algorithms then Inl (PyJWTError InvalidAlgorithmError)
          else if sg \<noteq> Mac key alg payload then Inl (PyJWTError InvalidSignatureError)
          else (case map_of payload ''exp'' of
                  None \<Rightarrow> Inr payload
                | Some (VInt e) \<Rightarrow>
                    if e \<le> now then Inl (PyJWTError ExpiredSignatureError) else Inr payload
                | Some v \<Rightarrow> Inl (PyJWTError DecodeError)))"

subsection \<open>Issuing and verifying\<close>

text \<open>
  \<^verbatim>\<open>create_access_token(*, data, expires_delta=None)\<close>. \<open>data\<close> is the address of the
  caller's dictionary, \<open>now\<close> the reading of \<^verbatim>\<open>datetime.utcnow()\<close>. The result is the token
  or the exception raised, and the heap after the call.
\<close>

definition create_access_token ::
  "settings \<Rightarrow> instant \<Rightarrow> heap \<Rightarrow> nat \<Rightarrow> timedelta option \<Rightarrow> (exn + token) \<times> heap" where
  "create_access_token st now h data expires_delta =
     (let (to_encode, h1) = dict_copy h data;
          normalised =
            (case map_of (cells h1 to_encode) ''role'' of
               None \<Rightarrow> Inr h1
             | Some (VStr r) \<Rightarrow> Inr (dict_store h1 to_encode ''role'' (VStr (upper r)))
             | Some v \<Rightarrow> Inl AttributeError)
      in case normalised of
           Inl e \<Rightarrow> (Inl e, h1)
         | Inr h2 \<Rightarrow>
             let expire = now + timedelta_or expires_delta
                                  (minutes (access_token_expire_minutes st));
                 h3 = dict_store h2 to_encode ''exp'' (VDatetime expire)
             in (jwt_encode (cells h3 to_encode) (jwt_secret_key st) (jwt_algorithm st), h3))"

text \<open>
  \<^verbatim>\<open>decode_token(token)\<close>: the library's errors (\<^verbatim>\<open>jwt.PyJWTError\<close>) are caught and become
  \<^verbatim>\<open>None\<close>; any other exception would propagate.
\<close>

definition decode_token :: "settings \<Rightarrow> instant \<Rightarrow> token \<Rightarrow> exn + pydict option" where
  "decode_token st now tok =
     (case jwt_decode tok (jwt_secret_key st) [jwt_algorithm st] now of
        Inr decoded \<Rightarrow> Inr (Some decoded)
      | Inl (PyJWTError e) \<Rightarrow> Inr None
      | Inl e \<Rightarrow> Inl e)"

text \<open>
  The claims the token fixtures of \<^verbatim>\<open>conftest.py\<close> pass:
  \<^verbatim>\<open>{"sub": user.email, "role": user.role.name}\<close>.
\<close>

definition session_claims :: "string \<Rightarrow> string \<Rightarrow> pydict" where
  "session_claims subject role_str = [(''sub'', VStr subject), (''role'', VStr role_str)]"

section \<open>Properties of the account record\<close>

text \<open>
  Claim C3, as the source has it. For every locked account, \<^const>\<open>unlock_account\<close> sets
  \<^verbatim>\<open>is_locked\<close> to false, which restores Open, and changes nothing else: the counter
  \<^verbatim>\<open>failed_login_attempts\<close> keeps its value.
\<close>

theorem unlock_account_keeps_counter:
  "is_locked u \<Longrightarrow>
     \<not> is_locked (unlock_account u)
     \<and> failed_login_attempts (unlock_account u) = failed_login_attempts u
     \<and> unlock_account u = u\<lparr>is_locked := False\<rparr>"
  by (simp add: unlock_account_def)

theorem unlock_account_keeps_counter_witness:
  "is_locked (locked_user test_settings)
   \<and> \<not> is_locked (unlock_account (locked_user test_settings))
   \<and> failed_login_attempts (unlock_account (locked_user test_settings)) = 5"
  using unlock_account_keeps_counter [of "locked_user test_settings"]
  by (simp add: locked_user_def test_settings_def)

text \<open>
  Claim C3 as stated (the unlock resets the counter to 0) fails on the locked fixture:
  after \<^const>\<open>unlock_account\<close> the counter is still at the threshold.
\<close>

theorem unlock_account_reset_counterexample:
  "is_locked (locked_user test_settings)
   \<and> failed_login_attempts (unlock_account (locked_user test_settings)) \<noteq> 0"
  by (simp add: unlock_account_def locked_user_def test_settings_def)

text \<open>
  Claim C4, as the source has it. \<^const>\<open>has_role\<close> succeeds exactly when the account's
  role equals the required one. It never succeeds where the order of the specification
  would refuse, and it refuses both \<open>AUTHENTICATED\<close> and \<open>ADMIN\<close> against a
  \<open>MANAGER\<close> requirement.
\<close>

theorem has_role_is_equality:
  "has_role u r = (role u = r)
   \<and> (has_role u r \<longrightarrow> spec_satisfies (role u) r)
   \<and> \<not> has_role (u\<lparr>role := AUTHENTICATED\<rparr>) MANAGER
   \<and> \<not> has_role (u\<lparr>role := ADMIN\<rparr>) MANAGER"
  by (simp add: has_role_def spec_satisfies_def)

theorem has_role_is_equality_witness:
  "has_role (user_fixture\<lparr>role := MANAGER\<rparr>) MANAGER
   \<and> spec_satisfies MANAGER MANAGER
   \<and> \<not> has_role (user_fixture\<lparr>role := ADMIN\<rparr>) MANAGER"
  using has_role_is_equality [of "user_fixture\<lparr>role := MANAGER\<rparr>" MANAGER]
    has_role_is_equality [of user_fixture MANAGER]
  by (simp add: has_role_def)

text \<open>
  Claim C4 as stated fails for an administrator against a manager requirement: the
  order of the specification is satisfied and \<^const>\<open>has_role\<close> answers no.
\<close>

theorem has_role_order_counterexample:
  "spec_satisfies ADMIN MANAGER
   \<and> \<not> has_role (user_fixture\<lparr>role := ADMIN\<rparr>) MANAGER"
  by (simp add: spec_satisfies_def has_role_def)

section \<open>Properties of the lockout policy\<close>



text \<open>
  Claim C1. A locked account cannot authenticate: whatever the credential collaborator
  would answer, \<^const>\<open>attempt_login\<close> rejects with the lockout outcome without calling it
  (the list of calls is empty), \<^const>\<open>record_success\<close> is rejected, and the account
  comes back as it was, locked and with its counter unchanged.
\<close>

theorem locked_account_rejected:
  assumes "is_locked u"
  shows "attempt_login st verify now u plaintext = (LockedFailure, u, [])
       \<and> record_success u now = Inl AccountLocked
       \<and> record_failure st u = Inl AccountLocked"
  using assms by (simp add: attempt_login_def record_success_def record_failure_def)

theorem locked_account_rejected_witness:
  "is_locked (locked_user test_settings)
   \<and> attempt_login test_settings (\<lambda>p d. True) 1000 (locked_user test_settings) ''MySuperPassword$1234''
       = (LockedFailure, locked_user test_settings, [])
   \<and> record_success (locked_user test_settings) 1000 = Inl AccountLocked"
proof -
  have h: "is_locked (locked_user test_settings)" by (simp add: locked_user_def)
  from locked_account_rejected [OF h] h show ?thesis by blast
qed






section \<open>Properties of the lockout invariant\<close>

lemma apply_op_lockout_inv:
  "lockout_inv (max_login_attempts st) u \<Longrightarrow> x \<noteq> LockAccount \<Longrightarrow>
     lockout_inv (max_login_attempts st) (apply_op st u x)"
  by (cases x)
     (auto simp add: lockout_inv_def record_failure_def record_success_def Let_def
        lock_account_def unlock_account_def verify_email_def update_professional_status_def)

lemma lock_account_lockout_inv:
  "lockout_inv M (lock_account u) \<longleftrightarrow> M \<le> failed_login_attempts u"
  by (simp add: lockout_inv_def lock_account_def)

lemma run_ops_lockout_inv:
  "lockout_inv (max_login_attempts st) u \<Longrightarrow> locks_at_threshold st u xs \<Longrightarrow>
     lockout_inv (max_login_attempts st) (run_ops st u xs)"
proof (induction xs arbitrary: u)
  case Nil
  then show ?case by simp
next
  case (Cons x xs)
  have "lockout_inv (max_login_attempts st) (apply_op st u x)"
  proof (cases "x = LockAccount")
    case True
    with Cons.prems(2) show ?thesis by (simp add: lock_account_lockout_inv)
  next
    case False
    with Cons.prems(1) show ?thesis by (rule apply_op_lockout_inv)
  qed
  moreover have "locks_at_threshold st (apply_op st u x) xs"
    using Cons.prems(2) by simp
  ultimately show ?case using Cons.IH by simp
qed

text \<open>
  Claim C8, as the source has it. The invariant (a locked account has its counter at or
  above the threshold) is preserved by every operation on an account except a direct
  \<^const>\<open>lock_account\<close>, which preserves it exactly when the counter is already at or above
  the threshold; so it holds in every state reached from a state that has it by a run
  whose direct locks all happen at the threshold. The counter is zero after a successful
  \<^const>\<open>record_success\<close> and after a login that succeeds. \<^const>\<open>unlock_account\<close> leaves
  the counter as it is.
\<close>

theorem lockout_inv_preserved:
  assumes "lockout_inv (max_login_attempts st) u"
  shows "(x \<noteq> LockAccount \<longrightarrow> lockout_inv (max_login_attempts st) (apply_op st u x))
       \<and> (lockout_inv (max_login_attempts st) (apply_op st u LockAccount)
             \<longleftrightarrow> max_login_attempts st \<le> failed_login_attempts u)
       \<and> (locks_at_threshold st u xs \<longrightarrow> lockout_inv (max_login_attempts st) (run_ops st u xs))
       \<and> (\<forall>v. record_success u now = Inr v \<longrightarrow> failed_login_attempts v = 0)
       \<and> (\<forall>v calls. attempt_login st verify now u plaintext = (Success, v, calls)
             \<longrightarrow> failed_login_attempts v = 0)
       \<and> failed_login_attempts (apply_op st u UnlockAccount) = failed_login_attempts u"
proof -
  have rs: "failed_login_attempts v = 0" if "record_success u now = Inr v" for v
    using that by (auto simp add: record_success_def split: if_splits)
  have al: "failed_login_attempts v = 0"
    if "attempt_login st verify now u plaintext = (Success, v, calls)" for v calls
    using that
    by (auto simp add: attempt_login_def record_success_def record_failure_def Let_def
        split: if_splits)
  show ?thesis
    using apply_op_lockout_inv [OF assms] run_ops_lockout_inv [OF assms] rs al
    by (simp add: lock_account_lockout_inv unlock_account_def)
qed

theorem lockout_inv_preserved_witness:
  "lockout_inv (max_login_attempts test_settings) user_fixture
   \<and> locks_at_threshold test_settings user_fixture
        [RecordFailure, RecordFailure, RecordFailure, RecordFailure, RecordFailure,
         LockAccount, UnlockAccount, RecordFailure]
   \<and> run_ops test_settings user_fixture
        [RecordFailure, RecordFailure, RecordFailure, RecordFailure, RecordFailure,
         LockAccount, UnlockAccount, RecordFailure]
       = user_fixture\<lparr>failed_login_attempts := 6, is_locked := True\<rparr>
   \<and> lockout_inv (max_login_attempts test_settings)
        (run_ops test_settings user_fixture
           [RecordFailure, RecordFailure, RecordFailure, RecordFailure, RecordFailure,
            LockAccount, UnlockAccount, RecordFailure])
   \<and> record_success (user_fixture\<lparr>failed_login_attempts := 3\<rparr>) 1000
       = Inr (user_fixture\<lparr>failed_login_attempts := 0, last_login_at := Some 1000\<rparr>)
   \<and> attempt_login test_settings (\<lambda>p d. True) 1000
        (user_fixture\<lparr>failed_login_attempts := 3\<rparr>) ''MySuperPassword$1234''
       = (Success, user_fixture\<lparr>failed_login_attempts := 0, last_login_at := Some 1000\<rparr>,
          [(''MySuperPassword$1234'', ''digest'')])"
proof -
  let ?ops = "[RecordFailure, RecordFailure, RecordFailure, RecordFailure, RecordFailure,
         LockAccount, UnlockAccount, RecordFailure]"
  have i: "lockout_inv (max_login_attempts test_settings) user_fixture"
    by (simp add: lockout_inv_def user_fixture_def)
  have l: "locks_at_threshold test_settings user_fixture ?ops"
    by (simp add: record_failure_def lock_account_def unlock_account_def Let_def
        test_settings_def user_fixture_def)
  have r: "run_ops test_settings user_fixture ?ops
       = user_fixture\<lparr>failed_login_attempts := 6, is_locked := True\<rparr>"
    by (simp add: record_failure_def lock_account_def unlock_account_def Let_def
        test_settings_def user_fixture_def)
  have s: "record_success (user_fixture\<lparr>failed_login_attempts := 3\<rparr>) 1000
       = Inr (user_fixture\<lparr>failed_login_attempts := 0, last_login_at := Some 1000\<rparr>)"
    by (simp add: record_success_def user_fixture_def)
  have a: "attempt_login test_settings (\<lambda>p d. True) 1000
        (user_fixture\<lparr>failed_login_attempts := 3\<rparr>) ''MySuperPassword$1234''
       = (Success, user_fixture\<lparr>failed_login_attempts := 0, last_login_at := Some 1000\<rparr>,
          [(''MySuperPassword$1234'', ''digest'')])"
    by (simp add: attempt_login_def record_success_def user_fixture_def Let_def)
  from lockout_inv_preserved [OF i, where xs = ?ops] l
  have "lockout_inv (max_login_attempts test_settings) (run_ops test_settings user_fixture ?ops)"
    by blast
  with i l r s a show ?thesis by blast
qed

text \<open>
  Claim C8 as stated fails in two reachable states: \<^const>\<open>lock_account\<close> on the fresh
  fixture, which has the invariant, gives a locked account with counter 0, below the
  threshold 5; and \<^const>\<open>unlock_account\<close> on the locked fixture takes \<^verbatim>\<open>is_locked\<close> to
  false with the counter still at 5.
\<close>

theorem lock_account_below_threshold_counterexample:
  "lockout_inv (max_login_attempts test_settings) user_fixture
   \<and> run_ops test_settings user_fixture [LockAccount] = lock_account user_fixture
   \<and> \<not> lockout_inv (max_login_attempts test_settings) (lock_account user_fixture)
   \<and> is_locked (locked_user test_settings)
   \<and> run_ops test_settings (locked_user test_settings) [UnlockAccount]
       = unlock_account (locked_user test_settings)
   \<and> \<not> is_locked (unlock_account (locked_user test_settings))
   \<and> failed_login_attempts (unlock_account (locked_user test_settings)) \<noteq> 0"
  by (simp add: lockout_inv_def lock_account_def unlock_account_def user_fixture_def
      locked_user_def test_settings_def)

section \<open>Properties of the token service\<close>

text \<open>
  The token issued for the claims of a session, and what verification makes of it.
\<close>

lemma issue_session_claims:
  assumes "cells h data = session_claims s r"
  shows "fst (create_access_token st t0 h data expires_delta)
     = Inr (Jws (jwt_algorithm st)
             [(''sub'', VStr s), (''role'', VStr (upper r)),
              (''exp'', VInt (t0 + timedelta_or expires_delta
                                     (minutes (access_token_expire_minutes st))))]
             (Mac (jwt_secret_key st) (jwt_algorithm st)
               [(''sub'', VStr s), (''role'', VStr (upper r)),
                (''exp'', VInt (t0 + timedelta_or expires_delta
                                     (minutes (access_token_expire_minutes st))))]))"
  using assms
  by (simp add: create_access_token_def dict_copy_def dict_store_def session_claims_def
      jwt_encode_def numeric_dates_def serialisable_def Let_def)

lemma decode_issued:
  "decode_token st now
     (Jws (jwt_algorithm st) [(''sub'', x), (''role'', y), (''exp'', VInt e)]
        (Mac (jwt_secret_key st) (jwt_algorithm st)
           [(''sub'', x), (''role'', y), (''exp'', VInt e)]))
   = (if e \<le> now then Inr None
      else Inr (Some [(''sub'', x), (''role'', y), (''exp'', VInt e)]))"
  by (simp add: decode_token_def jwt_decode_def)

lemma jwt_decode_issued_expired:
  "e \<le> now \<Longrightarrow>
   jwt_decode
     (Jws alg [(''sub'', x), (''role'', y), (''exp'', VInt e)]
        (Mac key alg [(''sub'', x), (''role'', y), (''exp'', VInt e)])) key [alg] now
   = Inl (PyJWTError ExpiredSignatureError)"
  by (simp add: jwt_decode_def)

lemma of_char_upper_char:
  "of_char (upper_char c) = (let n = (of_char c :: nat) in if 97 \<le> n \<and> n \<le> 122 then n - 32 else n)"
  by (auto simp add: upper_char_def Let_def)

lemma upper_char_idem: "upper_char (upper_char c) = upper_char c"
proof (cases "97 \<le> (of_char c :: nat) \<and> (of_char c :: nat) \<le> 122")
  case True
  then have "(of_char (upper_char c) :: nat) = of_char c - 32"
    by (simp add: of_char_upper_char)
  with True have "\<not> (97 \<le> (of_char (upper_char c) :: nat))" by linarith
  then show ?thesis
    by (simp add: upper_char_def [of "upper_char c"] Let_def)
next
  case False
  then have "upper_char c = c" by (auto simp add: upper_char_def Let_def)
  then show ?thesis by simp
qed

lemma upper_idem: "upper (upper s) = upper s"
  by (simp add: upper_def upper_char_idem)

lemma jwt_decode_raises_own_errors:
  "jwt_decode tok key algs now = Inl e \<Longrightarrow> \<exists>j. e = PyJWTError j"
  by (auto simp add: jwt_decode_def split: token.splits if_splits option.splits pyval.splits)

text \<open>
  Claim C5, as the source has it. A token issued at \<open>t0\<close> for the claims of a session
  with a supplied, non-zero time-to-live \<open>T\<close> verifies at every instant strictly before
  \<open>t0 + T\<close> and fails with expiry at every instant at or after \<open>t0 + T\<close>. When no
  time-to-live or a zero one is supplied, the configured default lifetime takes the
  place of \<open>T\<close>. Instants are whole seconds.
\<close>

theorem token_expiry_boundary:
  assumes "cells h data = session_claims s r"
  shows "(T \<noteq> 0 \<longrightarrow>
           (\<exists>tok. fst (create_access_token st t0 h data (Some T)) = Inr tok
              \<and> (now < t0 + T \<longrightarrow> (\<exists>c. decode_token st now tok = Inr (Some c)))
              \<and> (t0 + T \<le> now \<longrightarrow>
                    decode_token st now tok = Inr None
                    \<and> jwt_decode tok (jwt_secret_key st) [jwt_algorithm st] now
                        = Inl (PyJWTError ExpiredSignatureError))))
       \<and> (expires_delta = None \<or> expires_delta = Some 0 \<longrightarrow>
           (\<exists>tok. fst (create_access_token st t0 h data expires_delta) = Inr tok
              \<and> (now < t0 + minutes (access_token_expire_minutes st)
                    \<longrightarrow> (\<exists>c. decode_token st now tok = Inr (Some c)))
              \<and> (t0 + minutes (access_token_expire_minutes st) \<le> now \<longrightarrow>
                    decode_token st now tok = Inr None
                    \<and> jwt_decode tok (jwt_secret_key st) [jwt_algorithm st] now
                        = Inl (PyJWTError ExpiredSignatureError))))"
proof -
  have a: "timedelta_or (Some T) d = T" if "T \<noteq> 0" for d
    using that by (simp add: timedelta_or_def)
  have b: "timedelta_or expires_delta d = d"
    if "expires_delta = None \<or> expires_delta = Some 0" for d
    using that by (auto simp add: timedelta_or_def)
  show ?thesis
    by (simp add: issue_session_claims [OF assms] decode_issued jwt_decode_issued_expired
        a b)
qed

theorem token_expiry_boundary_witness:
  "(900::int) \<noteq> 0
   \<and> fst (create_access_token test_settings 1000
            (heap_with (session_claims ''jdoe@example.com'' ''authenticated'')) 0 (Some 900))
       = Inr (Jws ''HS256''
               [(''sub'', VStr ''jdoe@example.com''), (''role'', VStr ''AUTHENTICATED''),
                (''exp'', VInt 1900)]
               (Mac ''secret'' ''HS256''
                 [(''sub'', VStr ''jdoe@example.com''), (''role'', VStr ''AUTHENTICATED''),
                  (''exp'', VInt 1900)]))
   \<and> (\<exists>tok. fst (create_access_token test_settings 1000
            (heap_with (session_claims ''jdoe@example.com'' ''authenticated'')) 0 (Some 900))
              = Inr tok
         \<and> (\<exists>c. decode_token test_settings 1899 tok = Inr (Some c))
         \<and> decode_token test_settings 1900 tok = Inr None)"
proof -
  let ?h = "heap_with (session_claims ''jdoe@example.com'' ''authenticated'')"
  have d: "cells ?h 0 = session_claims ''jdoe@example.com'' ''authenticated''"
    by (simp add: heap_with_def)
  have u: "upper ''authenticated'' = ''AUTHENTICATED''" by code_simp
  have i: "fst (create_access_token test_settings 1000 ?h 0 (Some 900))
       = Inr (Jws ''HS256''
               [(''sub'', VStr ''jdoe@example.com''), (''role'', VStr ''AUTHENTICATED''),
                (''exp'', VInt 1900)]
               (Mac ''secret'' ''HS256''
                 [(''sub'', VStr ''jdoe@example.com''), (''role'', VStr ''AUTHENTICATED''),
                  (''exp'', VInt 1900)]))"
    by (simp add: create_access_token_def dict_copy_def dict_store_def session_claims_def
      jwt_encode_def numeric_dates_def serialisable_def Let_def heap_with_def u
      timedelta_or_def test_settings_def)
  have lo: "(\<exists>tok. fst (create_access_token test_settings 1000 ?h 0 (Some 900)) = Inr tok
         \<and> (\<exists>c. decode_token test_settings 1899 tok = Inr (Some c)))"
    using token_expiry_boundary [OF d, where T = 900 and st = test_settings and ?t0.0 = 1000
        and now = 1899 and expires_delta = None] by fastforce
  have hi: "(\<exists>tok. fst (create_access_token test_settings 1000 ?h 0 (Some 900)) = Inr tok
         \<and> decode_token test_settings 1900 tok = Inr None)"
    using token_expiry_boundary [OF d, where T = 900 and st = test_settings and ?t0.0 = 1000
        and now = 1900 and expires_delta = None] by fastforce
  from lo hi i show ?thesis by auto
qed

text \<open>
  Claim C5 as stated fails for a supplied time-to-live of zero: the token issued at
  instant 1000 expires at 1900 (the default of 15 minutes), so verification at instant
  1000, which is at \<open>t0 + T\<close>, succeeds.
\<close>

theorem zero_ttl_counterexample:
  "fst (create_access_token test_settings 1000
          (heap_with (session_claims ''jdoe@example.com'' ''authenticated'')) 0 (Some 0))
     = Inr (Jws ''HS256''
             [(''sub'', VStr ''jdoe@example.com''), (''role'', VStr ''AUTHENTICATED''),
              (''exp'', VInt 1900)]
             (Mac ''secret'' ''HS256''
               [(''sub'', VStr ''jdoe@example.com''), (''role'', VStr ''AUTHENTICATED''),
                (''exp'', VInt 1900)]))
   \<and> (1000::int) + 0 \<le> 1000
   \<and> decode_token test_settings 1000
        (Jws ''HS256''
             [(''sub'', VStr ''jdoe@example.com''), (''role'', VStr ''AUTHENTICATED''),
              (''exp'', VInt 1900)]
             (Mac ''secret'' ''HS256''
               [(''sub'', VStr ''jdoe@example.com''), (''role'', VStr ''AUTHENTICATED''),
                (''exp'', VInt 1900)]))
     = Inr (Some [(''sub'', VStr ''jdoe@example.com''), (''role'', VStr ''AUTHENTICATED''),
              (''exp'', VInt 1900)])"
proof -
  have u: "upper ''authenticated'' = ''AUTHENTICATED''" by code_simp
  show ?thesis
    by (simp add: create_access_token_def dict_copy_def dict_store_def session_claims_def
      jwt_encode_def numeric_dates_def serialisable_def Let_def heap_with_def u
      timedelta_or_def minutes_def test_settings_def decode_token_def jwt_decode_def)
qed

text \<open>
  Claim C6. Round trip: for every subject and role string, at every instant before the
  expiry the token carries, verifying the issued token succeeds and gives back the
  subject as it was and the role in upper case. Upper case is canonical: raising it again
  changes nothing, and the names of the four roles are already in that form.
\<close>

theorem token_round_trip:
  assumes "cells h data = session_claims s r"
    and "now < t0 + timedelta_or expires_delta (minutes (access_token_expire_minutes st))"
  shows "\<exists>tok c. fst (create_access_token st t0 h data expires_delta) = Inr tok
           \<and> decode_token st now tok = Inr (Some c)
           \<and> map_of c ''sub'' = Some (VStr s)
           \<and> map_of c ''role'' = Some (VStr (upper r))
           \<and> upper (upper r) = upper r
           \<and> upper (name_of_role x) = name_of_role x"
proof -
  have "upper (name_of_role x) = name_of_role x"
    by (cases x) (simp_all, code_simp+)
  then show ?thesis
    using assms(2)
    by (simp add: issue_session_claims [OF assms(1)] decode_issued upper_idem)
qed

theorem token_round_trip_witness:
  "(1899::int) < 1000 + timedelta_or (Some 900) (minutes (access_token_expire_minutes test_settings))
   \<and> (\<exists>tok c. fst (create_access_token test_settings 1000
                    (heap_with (session_claims ''jdoe@example.com'' ''authenticated'')) 0 (Some 900))
                 = Inr tok
           \<and> decode_token test_settings 1899 tok = Inr (Some c)
           \<and> map_of c ''sub'' = Some (VStr ''jdoe@example.com'')
           \<and> map_of c ''role'' = Some (VStr ''AUTHENTICATED''))"
proof -
  let ?h = "heap_with (session_claims ''jdoe@example.com'' ''authenticated'')"
  have d: "cells ?h 0 = session_claims ''jdoe@example.com'' ''authenticated''"
    by (simp add: heap_with_def)
  have t: "(1899::int) < 1000 + timedelta_or (Some 900) (minutes (access_token_expire_minutes test_settings))"
    by (simp add: timedelta_or_def)
  have u: "upper ''authenticated'' = ''AUTHENTICATED''" by code_simp
  from token_round_trip [OF d t] t show ?thesis unfolding u by blast
qed

text \<open>
  Claim C7. \<^const>\<open>decode_token\<close> never raises: for every token it returns a value. Every
  error of the library becomes \<^verbatim>\<open>None\<close>; in particular a malformed encoding, a signature
  that does not match and an expired token all give the same \<^verbatim>\<open>None\<close>.
\<close>

theorem decode_token_never_raises:
  "(\<exists>res. decode_token st now tok = Inr res)
   \<and> (\<forall>e. jwt_decode tok (jwt_secret_key st) [jwt_algorithm st] now = Inl e
          \<longrightarrow> decode_token st now tok = Inr None)
   \<and> decode_token st now (Garbage g) = Inr None
   \<and> (sg \<noteq> Mac (jwt_secret_key st) (jwt_algorithm st) p
          \<longrightarrow> decode_token st now (Jws alg p sg) = Inr None)
   \<and> (map_of p ''exp'' = Some (VInt ex) \<and> ex \<le> now
          \<longrightarrow> decode_token st now (Jws alg p sg) = Inr None)"
proof -
  have own: "decode_token st now t = Inr None"
    if "jwt_decode t (jwt_secret_key st) [jwt_algorithm st] now = Inl e" for t e
    using jwt_decode_raises_own_errors [OF that] that by (auto simp add: decode_token_def)
  have ret: "\<exists>res. decode_token st now tok = Inr res"
  proof (cases "jwt_decode tok (jwt_secret_key st) [jwt_algorithm st] now")
    case (Inl e)
    then show ?thesis using own by blast
  next
    case (Inr d)
    then show ?thesis by (simp add: decode_token_def)
  qed
  have g: "decode_token st now (Garbage g) = Inr None"
    by (simp add: decode_token_def jwt_decode_def)
  have sgn: "decode_token st now (Jws alg p sg) = Inr None"
    if "sg \<noteq> Mac (jwt_secret_key st) (jwt_algorithm st) p"
    using that by (simp add: decode_token_def jwt_decode_def)
  have ex: "decode_token st now (Jws alg p sg) = Inr None"
    if "map_of p ''exp'' = Some (VInt ex)" "ex \<le> now"
    using that by (simp add: decode_token_def jwt_decode_def)
  from ret own g sgn ex show ?thesis by blast
qed

theorem decode_token_never_raises_witness:
  "decode_token test_settings 2000 (Garbage ''not.a.token'') = Inr None
   \<and> Junk ''AAAA'' \<noteq> Mac ''secret'' ''HS256'' [(''sub'', VStr ''jdoe@example.com'')]
   \<and> decode_token test_settings 2000
        (Jws ''HS256'' [(''sub'', VStr ''jdoe@example.com'')] (Junk ''AAAA'')) = Inr None
   \<and> map_of [(''sub'', VStr ''jdoe@example.com''), (''exp'', VInt 1900)] ''exp''
        = Some (VInt 1900)
   \<and> (1900::int) \<le> 2000
   \<and> decode_token test_settings 2000
        (Jws ''HS256'' [(''sub'', VStr ''jdoe@example.com''), (''exp'', VInt 1900)]
           (Mac ''secret'' ''HS256''
              [(''sub'', VStr ''jdoe@example.com''), (''exp'', VInt 1900)])) = Inr None
   \<and> jwt_decode (Garbage ''not.a.token'') (jwt_secret_key test_settings)
        [jwt_algorithm test_settings] 2000 = Inl (PyJWTError DecodeError)"
proof -
  have k: "jwt_secret_key test_settings = ''secret''" "jwt_algorithm test_settings = ''HS256''"
    by (simp_all add: test_settings_def)
  have a: "decode_token test_settings 2000 (Garbage ''not.a.token'') = Inr None"
    using decode_token_never_raises [where st = test_settings and now = 2000
        and g = "''not.a.token''"] by blast
  have b: "Junk ''AAAA'' \<noteq> Mac ''secret'' ''HS256'' [(''sub'', VStr ''jdoe@example.com'')]"
    by simp
  have c: "decode_token test_settings 2000
        (Jws ''HS256'' [(''sub'', VStr ''jdoe@example.com'')] (Junk ''AAAA'')) = Inr None"
    using decode_token_never_raises [where st = test_settings and now = 2000
        and sg = "Junk ''AAAA''" and p = "[(''sub'', VStr ''jdoe@example.com'')]"
        and alg = "''HS256''"] b
    unfolding k by blast
  have d: "map_of [(''sub'', VStr ''jdoe@example.com''), (''exp'', VInt 1900)] ''exp''
        = Some (VInt 1900)" by simp
  have e: "decode_token test_settings 2000
        (Jws ''HS256'' [(''sub'', VStr ''jdoe@example.com''), (''exp'', VInt 1900)]
           (Mac ''secret'' ''HS256''
              [(''sub'', VStr ''jdoe@example.com''), (''exp'', VInt 1900)])) = Inr None"
    using decode_token_never_raises [where st = test_settings and now = 2000
        and sg = "Mac ''secret'' ''HS256''
              [(''sub'', VStr ''jdoe@example.com''), (''exp'', VInt 1900)]"
        and p = "[(''sub'', VStr ''jdoe@example.com''), (''exp'', VInt 1900)]"
        and alg = "''HS256''" and ex = 1900] d
    by simp
  have f: "jwt_decode (Garbage ''not.a.token'') (jwt_secret_key test_settings)
        [jwt_algorithm test_settings] 2000 = Inl (PyJWTError DecodeError)"
    by (simp add: jwt_decode_def)
  from a b c d e f show ?thesis by simp
qed

text \<open>
  Claim C9. Issuance leaves the caller's dictionary as it was, whatever the outcome
  (a token or an exception): the normalised role and the expiry are written to the copy,
  a new object, and every dictionary that existed before the call is unchanged.
\<close>

theorem create_access_token_frame:
  assumes "data < next_addr h"
  shows "cells (snd (create_access_token st now h data expires_delta)) data = cells h data
       \<and> (\<forall>a < next_addr h.
             cells (snd (create_access_token st now h data expires_delta)) a = cells h a)"
proof -
  have "cells (snd (create_access_token st now h data expires_delta)) a = cells h a"
    if "a < next_addr h" for a
    using that
    by (simp add: create_access_token_def dict_copy_def dict_store_def Let_def
        split: option.splits pyval.splits)
  with assms show ?thesis by blast
qed

theorem create_access_token_frame_witness:
  "(0::nat) < next_addr (heap_with (session_claims ''jdoe@example.com'' ''authenticated''))
   \<and> cells (snd (create_access_token test_settings 1000
               (heap_with (session_claims ''jdoe@example.com'' ''authenticated'')) 0 None)) 0
       = [(''sub'', VStr ''jdoe@example.com''), (''role'', VStr ''authenticated'')]"
proof -
  let ?h = "heap_with (session_claims ''jdoe@example.com'' ''authenticated'')"
  have n: "0 < next_addr ?h" by (simp add: heap_with_def)
  have c: "cells ?h 0 = [(''sub'', VStr ''jdoe@example.com''), (''role'', VStr ''authenticated'')]"
    by (simp add: heap_with_def session_claims_def)
  from create_access_token_frame [OF n, of test_settings 1000 None] n c
  show ?thesis by simp
qed

text \<open>
  Claim C10. A zero-length \<^verbatim>\<open>expires_delta\<close> is treated as an absent one: the call
  returns what the call without it returns, the expiry is the issuing instant plus the
  configured default lifetime, and with a positive default the token verifies at the
  instant of issuance, so it is neither expired nor of zero lifetime.
\<close>

theorem zero_delta_uses_default:
  assumes "cells h data = session_claims s r"
    and "0 < access_token_expire_minutes st"
  shows "create_access_token st t0 h data (Some 0) = create_access_token st t0 h data None
       \<and> (\<exists>tok c. fst (create_access_token st t0 h data (Some 0)) = Inr tok
             \<and> decode_token st t0 tok = Inr (Some c)
             \<and> map_of c ''exp'' = Some (VInt (t0 + 60 * access_token_expire_minutes st)))"
proof -
  have eq: "timedelta_or (Some 0) d = timedelta_or None d" for d
    by (simp add: timedelta_or_def)
  have same: "create_access_token st t0 h data (Some 0) = create_access_token st t0 h data None"
    unfolding create_access_token_def eq ..
  have t: "timedelta_or (Some 0) (minutes (access_token_expire_minutes st))
             = 60 * access_token_expire_minutes st"
    by (simp add: timedelta_or_def minutes_def)
  have "\<exists>tok c. fst (create_access_token st t0 h data (Some 0)) = Inr tok
             \<and> decode_token st t0 tok = Inr (Some c)
             \<and> map_of c ''exp'' = Some (VInt (t0 + 60 * access_token_expire_minutes st))"
    using assms(2)
    by (simp add: issue_session_claims [OF assms(1)] decode_issued t)
  with same show ?thesis by blast
qed

theorem zero_delta_uses_default_witness:
  "0 < access_token_expire_minutes test_settings
   \<and> (\<exists>tok c. fst (create_access_token test_settings 1000
                    (heap_with (session_claims ''jdoe@example.com'' ''authenticated'')) 0 (Some 0))
                  = Inr tok
             \<and> decode_token test_settings 1000 tok = Inr (Some c)
             \<and> map_of c ''exp'' = Some (VInt 1900))"
proof -
  let ?h = "heap_with (session_claims ''jdoe@example.com'' ''authenticated'')"
  have d: "cells ?h 0 = session_claims ''jdoe@example.com'' ''authenticated''"
    by (simp add: heap_with_def)
  have m: "0 < access_token_expire_minutes test_settings" by (simp add: test_settings_def)
  have v: "(1000::int) + 60 * access_token_expire_minutes test_settings = 1900"
    by (simp add: test_settings_def)
  from zero_delta_uses_default [OF d m, of 1000] m show ?thesis unfolding v by blast
qed

end
